theory Spec2Isabelle
  imports Complex_Main "HOL-Library.Multiset"
begin

section \<open>Python values and exceptions\<close>

text \<open>
  The exceptions the program can meet: \<open>ValueError\<close> and \<open>IndexError\<close> are raised by
  numpy, \<open>FrozenInstanceError\<close> by the \<open>dataclasses\<close> module. A computation that may
  raise returns \<open>py_error + 'a\<close>, with \<open>Inl\<close> for the exception. Python floats are
  modelled by \<open>real\<close>, Python integers by \<open>int\<close>.
\<close>

datatype py_error = ValueError | IndexError | FrozenInstanceError

section \<open>ScenarioParameters: the frozen dataclass (lines 8-27)\<close>

record ScenarioParameters =
  name :: string
  mean_process_time :: real
  mean_dta :: real
  p_admit :: real

text \<open>
  The \<open>__init__\<close> that \<open>@dataclass\<close> generates: \<open>name\<close> is required, the three other
  fields have the defaults \<open>150.0\<close>, \<open>120.0\<close> and \<open>0.4\<close>. An omitted argument is \<open>None\<close>.
\<close>

definition ScenarioParameters_init ::
  "string \<Rightarrow> real option \<Rightarrow> real option \<Rightarrow> real option \<Rightarrow> ScenarioParameters" where
  "ScenarioParameters_init nm mpt dta p =
     \<lparr>name = nm,
      mean_process_time = (case mpt of None \<Rightarrow> 150 | Some x \<Rightarrow> x),
      mean_dta = (case dta of None \<Rightarrow> 120 | Some x \<Rightarrow> x),
      p_admit = (case p of None \<Rightarrow> 4 / 10 | Some x \<Rightarrow> x)\<rparr>"

text \<open>
  An attribute assignment \<open>obj.field = value\<close> to one of the four fields. The
  \<open>__setattr__\<close> of a dataclass depends on the decorator's \<open>frozen\<close> parameter: with
  \<open>frozen=True\<close> it raises \<open>FrozenInstanceError\<close> and stores nothing, otherwise it
  stores the value (\<open>store_field\<close>, Python's \<open>object.__setattr__\<close>). The write
  returns the outcome together with the object as it is afterwards.
\<close>

datatype field_write =
    Write_name string
  | Write_mean_process_time real
  | Write_mean_dta real
  | Write_p_admit real

fun store_field :: "ScenarioParameters \<Rightarrow> field_write \<Rightarrow> ScenarioParameters" where
  "store_field self (Write_name v) = self\<lparr>name := v\<rparr>"
| "store_field self (Write_mean_process_time v) = self\<lparr>mean_process_time := v\<rparr>"
| "store_field self (Write_mean_dta v) = self\<lparr>mean_dta := v\<rparr>"
| "store_field self (Write_p_admit v) = self\<lparr>p_admit := v\<rparr>"

definition dataclass_setattr ::
  "bool \<Rightarrow> ScenarioParameters \<Rightarrow> field_write \<Rightarrow> (py_error + unit) \<times> ScenarioParameters" where
  "dataclass_setattr frozen self w =
     (if frozen then (Inl FrozenInstanceError, self) else (Inr (), store_field self w))"

text \<open>Line 8: \<open>@dataclass(frozen=True)\<close>.\<close>

definition ScenarioParameters_setattr ::
  "ScenarioParameters \<Rightarrow> field_write \<Rightarrow> (py_error + unit) \<times> ScenarioParameters" where
  "ScenarioParameters_setattr = dataclass_setattr True"

section \<open>numpy.random.RandomState\<close>

text \<open>
  \<open>numpy.random.RandomState\<close> is library code outside the repository. Its bit generator
  is a parameter of the model: a state type \<open>'g\<close> with the two seeding routines and the
  two per-sample kernels that the program's draws use. Each kernel takes the generator
  state and returns one sample with the state after it.
  \<^item> \<open>init_seed\<close>: the state for an integer seed;
  \<^item> \<open>init_entropy\<close>: the state for the bytes read from the operating system when no
    seed is given;
  \<^item> \<open>legacy_standard_exponential\<close>: one sample of the exponential distribution of
    mean 1;
  \<^item> \<open>legacy_random_binomial n p\<close>: one sample of the binomial distribution.
\<close>

record 'g bit_generator =
  init_seed :: "int \<Rightarrow> 'g"
  init_entropy :: "nat list \<Rightarrow> 'g"
  legacy_standard_exponential :: "'g \<Rightarrow> real \<times> 'g"
  legacy_random_binomial :: "int \<Rightarrow> real \<Rightarrow> 'g \<Rightarrow> int \<times> 'g"

text \<open>
  \<open>RandomState(seed)\<close>: an integer seed must lie in \<open>0 .. 2**32 - 1\<close> (otherwise
  \<open>ValueError\<close>); \<open>None\<close> seeds from the operating system's entropy, which is the
  second argument here.
\<close>

definition RandomState :: "'g bit_generator \<Rightarrow> int option \<Rightarrow> nat list \<Rightarrow> py_error + 'g" where
  "RandomState R seed entropy =
     (case seed of
        None \<Rightarrow> Inr (init_entropy R entropy)
      | Some s \<Rightarrow> if s < 0 \<or> 2 ^ 32 - 1 < s then Inl ValueError else Inr (init_seed R s))"

text \<open>Filling an array of \<open>k\<close> samples: the kernel is called \<open>k\<close> times, in index order.\<close>

fun fill :: "('g \<Rightarrow> 'a \<times> 'g) \<Rightarrow> nat \<Rightarrow> 'g \<Rightarrow> 'a list \<times> 'g" where
  "fill f 0 g = ([], g)"
| "fill f (Suc k) g =
     (case f g of (x, g') \<Rightarrow> (case fill f k g' of (xs, g'') \<Rightarrow> (x # xs, g'')))"

text \<open>
  \<open>RandomState.exponential(scale, size)\<close>: the arguments are checked before any sample
  is drawn (a negative \<open>scale\<close> and a negative \<open>size\<close> raise \<open>ValueError\<close>); each sample
  is \<open>scale\<close> times a standard exponential sample.
\<close>

definition legacy_exponential :: "'g bit_generator \<Rightarrow> real \<Rightarrow> 'g \<Rightarrow> real \<times> 'g" where
  "legacy_exponential R scale g =
     (case legacy_standard_exponential R g of (x, g') \<Rightarrow> (scale * x, g'))"

definition RandomState_exponential ::
  "'g bit_generator \<Rightarrow> real \<Rightarrow> int \<Rightarrow> 'g \<Rightarrow> (py_error + real list) \<times> 'g" where
  "RandomState_exponential R scale sz g =
     (if scale < 0 then (Inl ValueError, g)
      else if sz < 0 then (Inl ValueError, g)
      else case fill (legacy_exponential R scale) (nat sz) g of (xs, g') \<Rightarrow> (Inr xs, g'))"

text \<open>
  \<open>RandomState.binomial(n, p, size)\<close>: \<open>p\<close> outside \<open>[0, 1]\<close>, a negative \<open>n\<close> and a
  negative \<open>size\<close> raise \<open>ValueError\<close> before any sample is drawn.
\<close>

definition RandomState_binomial ::
  "'g bit_generator \<Rightarrow> int \<Rightarrow> real \<Rightarrow> int \<Rightarrow> 'g \<Rightarrow> (py_error + int list) \<times> 'g" where
  "RandomState_binomial R n p sz g =
     (if p < 0 \<or> 1 < p then (Inl ValueError, g)
      else if n < 0 then (Inl ValueError, g)
      else if sz < 0 then (Inl ValueError, g)
      else case fill (legacy_random_binomial R n p) (nat sz) g of (xs, g') \<Rightarrow> (Inr xs, g'))"

section \<open>numpy array operations used by simulate\<close>

text \<open>\<open>a == c\<close> on an integer array: the element-wise comparison, a boolean mask.\<close>

definition eq_scalar :: "int list \<Rightarrow> int \<Rightarrow> bool list" where
  "eq_scalar a c = map (\<lambda>x. x = c) a"

text \<open>
  \<open>a[mask]\<close> with a boolean mask: the elements of \<open>a\<close> where the mask is true, in index
  order; a mask of another length raises \<open>IndexError\<close>.
\<close>

definition bool_index :: "'a list \<Rightarrow> bool list \<Rightarrow> py_error + 'a list" where
  "bool_index a msk =
     (if length msk \<noteq> length a then Inl IndexError
      else Inr (map fst (filter snd (zip a msk))))"

text \<open>
  \<open>a + b\<close> on one-dimensional arrays: element-wise for equal lengths, an array of
  length 1 is broadcast, any other pair of lengths raises \<open>ValueError\<close>.
\<close>

definition np_add :: "real list \<Rightarrow> real list \<Rightarrow> py_error + real list" where
  "np_add a b =
     (if length a = length b then Inr (map2 (+) a b)
      else if length a = 1 then Inr (map (\<lambda>y. hd a + y) b)
      else if length b = 1 then Inr (map (\<lambda>x. x + hd b) a)
      else Inl ValueError)"

definition np_append :: "real list \<Rightarrow> real list \<Rightarrow> real list" where
  "np_append a b = a @ b"

section \<open>SimpleMonteCarloED (lines 32-97)\<close>

text \<open>
  The object holds the parameters and the generator state. A method that draws returns
  its outcome together with the object as it is afterwards, also when it raises: the
  generator keeps whatever the draws before the exception did to it.
\<close>

record 'g SimpleMonteCarloED =
  params :: ScenarioParameters
  rs :: 'g

definition SimpleMonteCarloED_init ::
  "'g bit_generator \<Rightarrow> ScenarioParameters \<Rightarrow> int option \<Rightarrow> nat list
     \<Rightarrow> py_error + 'g SimpleMonteCarloED" where
  "SimpleMonteCarloED_init R prms random_state entropy =
     (case RandomState R random_state entropy of
        Inl e \<Rightarrow> Inl e
      | Inr g \<Rightarrow> Inr \<lparr>params = prms, rs = g\<rparr>)"

definition simulate_ed_process_times ::
  "'g bit_generator \<Rightarrow> 'g SimpleMonteCarloED \<Rightarrow> int
     \<Rightarrow> (py_error + real list) \<times> 'g SimpleMonteCarloED" where
  "simulate_ed_process_times R self n_patients =
     (case RandomState_exponential R (mean_process_time (params self)) n_patients (rs self) of
        (r, g') \<Rightarrow> (r, self\<lparr>rs := g'\<rparr>))"

definition simulate_admission ::
  "'g bit_generator \<Rightarrow> 'g SimpleMonteCarloED \<Rightarrow> int
     \<Rightarrow> (py_error + int list) \<times> 'g SimpleMonteCarloED" where
  "simulate_admission R self n_patients =
     (case RandomState_binomial R 1 (p_admit (params self)) n_patients (rs self) of
        (r, g') \<Rightarrow> (r, self\<lparr>rs := g'\<rparr>))"

definition simulate_dta_times ::
  "'g bit_generator \<Rightarrow> 'g SimpleMonteCarloED \<Rightarrow> int
     \<Rightarrow> (py_error + real list) \<times> 'g SimpleMonteCarloED" where
  "simulate_dta_times R self n_patients =
     (case RandomState_exponential R (mean_dta (params self)) n_patients (rs self) of
        (r, g') \<Rightarrow> (r, self\<lparr>rs := g'\<rparr>))"

text \<open>
  Lines 69-77 of \<open>simulate\<close>, the array arithmetic on the three draws: the left operand
  of \<open>+\<close> is indexed first, then the right one, then the sum is taken, then the times of
  the patients who are not admitted are selected, and the two arrays are appended.
\<close>

definition ed_times :: "real list \<Rightarrow> int list \<Rightarrow> real list \<Rightarrow> py_error + real list" where
  "ed_times process_times admissions admit_delays =
     (case bool_index process_times (eq_scalar admissions 1) of
        Inl e \<Rightarrow> Inl e
      | Inr pt_admit \<Rightarrow>
     (case bool_index admit_delays (eq_scalar admissions 1) of
        Inl e \<Rightarrow> Inl e
      | Inr delay_admit \<Rightarrow>
     (case np_add pt_admit delay_admit of
        Inl e \<Rightarrow> Inl e
      | Inr ed_times_admit \<Rightarrow>
     (case bool_index process_times (eq_scalar admissions 0) of
        Inl e \<Rightarrow> Inl e
      | Inr ed_times_not_admit \<Rightarrow> Inr (np_append ed_times_admit ed_times_not_admit)))))"

text \<open>Lines 58-77: the three draws, in the order of the source, then the arithmetic.\<close>

definition simulate ::
  "'g bit_generator \<Rightarrow> 'g SimpleMonteCarloED \<Rightarrow> int
     \<Rightarrow> (py_error + real list) \<times> 'g SimpleMonteCarloED" where
  "simulate R self n_patients =
     (case simulate_ed_process_times R self n_patients of
        (Inl e, self1) \<Rightarrow> (Inl e, self1)
      | (Inr process_times, self1) \<Rightarrow>
     (case simulate_admission R self1 n_patients of
        (Inl e, self2) \<Rightarrow> (Inl e, self2)
      | (Inr admissions, self2) \<Rightarrow>
     (case simulate_dta_times R self2 n_patients of
        (Inl e, self3) \<Rightarrow> (Inl e, self3)
      | (Inr admit_delays, self3) \<Rightarrow>
          (ed_times process_times admissions admit_delays, self3))))"

text \<open>
  Lines 130-131 of the script: one simulator is constructed from a scenario and a seed,
  and \<open>simulate\<close> is called once on it; the value is the sequence returned, or the
  exception raised on the way.
\<close>

definition single_run ::
  "'g bit_generator \<Rightarrow> ScenarioParameters \<Rightarrow> int option \<Rightarrow> nat list \<Rightarrow> int
     \<Rightarrow> py_error + real list" where
  "single_run R scenario random_state entropy n_patients =
     (case SimpleMonteCarloED_init R scenario random_state entropy of
        Inl e \<Rightarrow> Inl e
      | Inr model \<Rightarrow> fst (simulate R model n_patients))"

text \<open>The generator state after one call of a kernel; \<open>advance f ^^ k\<close> is the state after \<open>k\<close> calls.\<close>

definition advance :: "('g \<Rightarrow> 'a \<times> 'g) \<Rightarrow> 'g \<Rightarrow> 'g" where
  "advance f g = snd (f g)"

section \<open>A small generator to run the model on\<close>

text \<open>
  A linear congruential generator on the states \<open>0 .. 15\<close>, with kernels that compute
  rational samples: the standard exponential sample is one of \<open>0, 1/2, 1, 3/2\<close>; the
  binomial sample is all \<open>n\<close> successes or none, by comparing a fraction with \<open>p\<close>.
\<close>

definition lcg_next :: "nat \<Rightarrow> nat" where
  "lcg_next g = (5 * g + 3) mod 16"

definition lcg :: "nat bit_generator" where
  "lcg =
     \<lparr>init_seed = (\<lambda>s. nat s mod 16),
      init_entropy = (\<lambda>bs. sum_list bs mod 16),
      legacy_standard_exponential = (\<lambda>g. (real (g mod 4) / 2, lcg_next g)),
      legacy_random_binomial =
        (\<lambda>n p g. (if real (g mod 8) / 8 < p then n else 0, lcg_next g))\<rparr>"

definition baseline :: ScenarioParameters where
  "baseline = ScenarioParameters_init ''baseline'' None None None"

text \<open>The simulator of line 130 for the baseline scenario and the seed 909, on the small generator.\<close>

definition baseline_model :: "nat SimpleMonteCarloED" where
  "baseline_model = \<lparr>params = baseline, rs = init_seed lcg 909\<rparr>"

section \<open>What the generator is assumed to deliver\<close>

text \<open>
  The two facts about numpy's kernels that the program relies on: a standard exponential
  sample is not negative, and a binomial sample of \<open>n\<close> trials counts between \<open>0\<close> and
  \<open>n\<close> successes.
\<close>

definition exponential_nonneg :: "'g bit_generator \<Rightarrow> bool" where
  "exponential_nonneg R \<longleftrightarrow> (\<forall>g. 0 \<le> fst (legacy_standard_exponential R g))"

definition binomial_in_range :: "'g bit_generator \<Rightarrow> bool" where
  "binomial_in_range R \<longleftrightarrow>
     (\<forall>n p g. 0 \<le> n \<longrightarrow> 0 \<le> fst (legacy_random_binomial R n p g)
        \<and> fst (legacy_random_binomial R n p g) \<le> n)"

section \<open>The configuration is immutable\<close>

text \<open>
  C5. Every attempt to write one of the four fields of a constructed
  \<open>ScenarioParameters\<close> raises \<open>FrozenInstanceError\<close>, and the object is the same
  afterwards: each field has the value it had before.
\<close>

theorem frozen_write_raises:
  "ScenarioParameters_setattr c w = (Inl FrozenInstanceError, c)"
  by (simp add: ScenarioParameters_setattr_def dataclass_setattr_def)

section \<open>Facts about the draws and the array operations\<close>

lemma fill_length: "fill f k g = (xs, g') \<Longrightarrow> length xs = k"
  by (induction k arbitrary: g xs g') (auto split: prod.splits)

lemma fill_state: "fill f k g = (xs, g') \<Longrightarrow> g' = (advance f ^^ k) g"
proof (induction k arbitrary: g xs g')
  case 0
  then show ?case by simp
next
  case (Suc k)
  obtain x g1 where f: "f g = (x, g1)" by (cases "f g")
  obtain ys g2 where r: "fill f k g1 = (ys, g2)" by (cases "fill f k g1")
  from Suc.prems f r have "g' = g2" by simp
  moreover from Suc.IH [OF r] have "g2 = (advance f ^^ k) g1" .
  moreover have "g1 = advance f g" using f by (simp add: advance_def)
  ultimately show ?case by (simp add: funpow_swap1)
qed

lemma fill_all: "(\<And>h. P (fst (f h))) \<Longrightarrow> fill f k g = (xs, g') \<Longrightarrow> \<forall>x\<in>set xs. P x"
proof (induction k arbitrary: g xs g')
  case 0
  then show ?case by simp
next
  case (Suc k)
  then show ?case
    by (auto split: prod.splits) (metis fst_conv)
qed

lemma zip_filter_nth:
  "length m = length a \<Longrightarrow>
   map fst (filter snd (zip a m)) = map (\<lambda>i. a ! i) (filter (\<lambda>i. m ! i) [0..<length a])"
proof (induction a arbitrary: m rule: rev_induct)
  case Nil
  then show ?case by simp
next
  case (snoc x xs)
  then obtain m' b where m: "m = m' @ [b]" "length m' = length xs"
    by (metis length_Suc_conv_rev length_append_singleton)
  have "map (\<lambda>i. (xs @ [x]) ! i) (filter (\<lambda>i. (m' @ [b]) ! i) [0..<length xs])
      = map (\<lambda>i. xs ! i) (filter (\<lambda>i. m' ! i) [0..<length xs])"
    using m(2) by (auto intro!: map_cong filter_cong simp: nth_append)
  then show ?case using snoc.IH[of m'] m
    by (simp add: nth_append)
qed

lemma advance_legacy_exponential:
  "advance (legacy_exponential R scale) = advance (legacy_standard_exponential R)"
  by (rule ext) (simp add: advance_def legacy_exponential_def split: prod.splits)

lemma exponential_draw:
  assumes "0 \<le> scale" "0 \<le> sz" "fill (legacy_exponential R scale) (nat sz) g = (xs, g')"
  shows "RandomState_exponential R scale sz g = (Inr xs, g')"
  using assms by (simp add: RandomState_exponential_def)

lemma binomial_draw:
  assumes "0 \<le> p" "p \<le> 1" "0 \<le> n" "0 \<le> sz" "fill (legacy_random_binomial R n p) (nat sz) g = (xs, g')"
  shows "RandomState_binomial R n p sz g = (Inr xs, g')"
  using assms by (simp add: RandomState_binomial_def)

lemma bool_index_nth:
  "length m = length a \<Longrightarrow>
   bool_index a m = Inr (map (\<lambda>i. a ! i) (filter (\<lambda>i. m ! i) [0..<length a]))"
  by (simp add: bool_index_def zip_filter_nth)

lemma map2_nth_filter:
  "map2 (+) (map (\<lambda>i. a ! i) is) (map (\<lambda>i. b ! i) is) = map (\<lambda>i. a ! i + (b ! i :: real)) is"
  by (induction "is") auto

lemma filter_eq_scalar:
  "length ad = k \<Longrightarrow> filter (\<lambda>i. eq_scalar ad c ! i) [0..<k] = filter (\<lambda>i. ad ! i = c) [0..<k]"
  by (auto intro!: filter_cong simp: eq_scalar_def)

lemma ed_times_valid:
  assumes "length ad = length pt" "length dl = length pt"
  shows "ed_times pt ad dl =
     Inr (map (\<lambda>i. pt ! i + dl ! i) (filter (\<lambda>i. ad ! i = 1) [0..<length pt])
          @ map (\<lambda>i. pt ! i) (filter (\<lambda>i. ad ! i = 0) [0..<length pt]))"
proof -
  have l: "length (eq_scalar ad c) = length pt" for c
    using assms by (simp add: eq_scalar_def)
  have l': "length (eq_scalar ad c) = length dl" for c
    using assms by (simp add: eq_scalar_def)
  show ?thesis
    unfolding ed_times_def
    using assms
    by (simp add: bool_index_nth [OF l] bool_index_nth [OF l'] np_add_def map2_nth_filter
        np_append_def filter_eq_scalar)
qed

lemma simulate_valid:
  assumes n: "0 \<le> n"
    and c: "0 \<le> mean_process_time (params self)" "0 \<le> mean_dta (params self)"
      "0 \<le> p_admit (params self)" "p_admit (params self) \<le> 1"
    and d1: "fill (legacy_exponential R (mean_process_time (params self))) (nat n) (rs self) = (pt, g1)"
    and d2: "fill (legacy_random_binomial R 1 (p_admit (params self))) (nat n) g1 = (ad, g2)"
    and d3: "fill (legacy_exponential R (mean_dta (params self))) (nat n) g2 = (dl, g3)"
  shows "simulate_ed_process_times R self n = (Inr pt, self\<lparr>rs := g1\<rparr>)"
    and "simulate_admission R (self\<lparr>rs := g1\<rparr>) n = (Inr ad, self\<lparr>rs := g2\<rparr>)"
    and "simulate_dta_times R (self\<lparr>rs := g2\<rparr>) n = (Inr dl, self\<lparr>rs := g3\<rparr>)"
    and "simulate R self n = (ed_times pt ad dl, self\<lparr>rs := g3\<rparr>)"
proof -
  show 1: "simulate_ed_process_times R self n = (Inr pt, self\<lparr>rs := g1\<rparr>)"
    by (simp add: simulate_ed_process_times_def exponential_draw [OF c(1) n d1])
  show 2: "simulate_admission R (self\<lparr>rs := g1\<rparr>) n = (Inr ad, self\<lparr>rs := g2\<rparr>)"
    using binomial_draw [OF c(3) c(4) _ n d2]
    by (simp add: simulate_admission_def)
  show 3: "simulate_dta_times R (self\<lparr>rs := g2\<rparr>) n = (Inr dl, self\<lparr>rs := g3\<rparr>)"
    by (simp add: simulate_dta_times_def exponential_draw [OF c(2) n d3])
  show "simulate R self n = (ed_times pt ad dl, self\<lparr>rs := g3\<rparr>)"
    by (simp add: simulate_def 1 2 3)
qed


lemma method_frames:
  "\<exists>g. snd (simulate_ed_process_times R self n) = self\<lparr>rs := g\<rparr>"
  "\<exists>g. snd (simulate_admission R self n) = self\<lparr>rs := g\<rparr>"
  "\<exists>g. snd (simulate_dta_times R self n) = self\<lparr>rs := g\<rparr>"
  by (auto simp: simulate_ed_process_times_def simulate_admission_def simulate_dta_times_def
      split: prod.splits)

lemma simulate_frame_aux: "\<exists>g. snd (simulate R self n) = self\<lparr>rs := g\<rparr>"
proof -
  obtain r1 s1 where 1: "simulate_ed_process_times R self n = (r1, s1)"
    by (cases "simulate_ed_process_times R self n")
  obtain r2 s2 where 2: "simulate_admission R s1 n = (r2, s2)"
    by (cases "simulate_admission R s1 n")
  obtain r3 s3 where 3: "simulate_dta_times R s2 n = (r3, s3)"
    by (cases "simulate_dta_times R s2 n")
  from method_frames(1) [of R self n] 1 obtain g1 where g1: "s1 = self\<lparr>rs := g1\<rparr>" by auto
  from method_frames(2) [of R s1 n] 2 g1 obtain g2 where g2: "s2 = self\<lparr>rs := g2\<rparr>" by auto
  from method_frames(3) [of R s2 n] 3 g2 obtain g3 where g3: "s3 = self\<lparr>rs := g3\<rparr>" by auto
  show ?thesis
    using 1 2 3 g1 g2 g3 by (auto simp: simulate_def split: sum.splits)
qed

lemma lcg_nonneg: "exponential_nonneg lcg"
  by (simp add: exponential_nonneg_def lcg_def)

lemma lcg_in_range: "binomial_in_range lcg"
  by (simp add: binomial_in_range_def lcg_def)

lemma mset_partition_map:
  "mset (map f (filter P xs) @ map g (filter (\<lambda>x. \<not> P x) xs))
     = mset (map (\<lambda>x. if P x then f x else g x) xs)"
  by (induction xs) auto

lemma admissions_range:
  assumes "binomial_in_range R" "fill (legacy_random_binomial R 1 p) k g = (ad, g')"
  shows "\<forall>a\<in>set ad. a = 0 \<or> a = 1"
proof -
  have "\<And>h. (\<lambda>a. a = 0 \<or> a = (1::int)) (fst (legacy_random_binomial R 1 p h))"
  proof -
    fix h
    from assms(1) have "0 \<le> fst (legacy_random_binomial R 1 p h)
        \<and> fst (legacy_random_binomial R 1 p h) \<le> 1"
      unfolding binomial_in_range_def by (metis zero_le_one)
    then show "fst (legacy_random_binomial R 1 p h) = 0 \<or> fst (legacy_random_binomial R 1 p h) = 1"
      by arith
  qed
  from fill_all [of "\<lambda>a. a = 0 \<or> a = (1::int)", OF this assms(2)] show ?thesis .
qed

lemma exponential_samples_nonneg:
  assumes "exponential_nonneg R" "0 \<le> scale" "fill (legacy_exponential R scale) k g = (xs, g')"
  shows "\<forall>x\<in>set xs. 0 \<le> x"
proof -
  have "\<And>h. 0 \<le> fst (legacy_exponential R scale h)"
  proof -
    fix h
    obtain x h' where s: "legacy_standard_exponential R h = (x, h')"
      by (cases "legacy_standard_exponential R h")
    from assms(1) have "0 \<le> fst (legacy_standard_exponential R h)"
      by (simp add: exponential_nonneg_def)
    with s assms(2) show "0 \<le> fst (legacy_exponential R scale h)"
      by (simp add: legacy_exponential_def)
  qed
  from fill_all [of "\<lambda>x. 0 \<le> x", OF this assms(3)] show ?thesis .
qed

lemma first_draw_raises:
  assumes "n < 0 \<or> mean_process_time (params self) < 0"
  shows "simulate R self n = (Inl ValueError, self)"
  using assms
  by (auto simp: simulate_def simulate_ed_process_times_def RandomState_exponential_def)

lemma second_draw_raises:
  assumes "0 \<le> n" "0 \<le> mean_process_time (params self)"
    and "p_admit (params self) < 0 \<or> 1 < p_admit (params self)"
  shows "simulate R self n =
    (Inl ValueError, self\<lparr>rs := (advance (legacy_standard_exponential R) ^^ nat n) (rs self)\<rparr>)"
proof -
  obtain pt g1 where d1:
    "fill (legacy_exponential R (mean_process_time (params self))) (nat n) (rs self) = (pt, g1)"
    by (cases "fill (legacy_exponential R (mean_process_time (params self))) (nat n) (rs self)")
  have g1: "g1 = (advance (legacy_standard_exponential R) ^^ nat n) (rs self)"
    using fill_state [OF d1] by (simp add: advance_legacy_exponential)
  have 1: "simulate_ed_process_times R self n = (Inr pt, self\<lparr>rs := g1\<rparr>)"
    by (simp add: simulate_ed_process_times_def exponential_draw [OF assms(2) assms(1) d1])
  have 2: "simulate_admission R (self\<lparr>rs := g1\<rparr>) n = (Inl ValueError, self\<lparr>rs := g1\<rparr>)"
    using assms(3) by (auto simp: simulate_admission_def RandomState_binomial_def)
  show ?thesis
    unfolding g1 [symmetric] by (simp add: simulate_def 1 2)
qed

lemma third_draw_raises:
  assumes "0 \<le> n" "0 \<le> mean_process_time (params self)"
    and "0 \<le> p_admit (params self)" "p_admit (params self) \<le> 1"
    and "mean_dta (params self) < 0"
  shows "simulate R self n =
    (Inl ValueError,
     self\<lparr>rs := (advance (legacy_random_binomial R 1 (p_admit (params self))) ^^ nat n)
                 ((advance (legacy_standard_exponential R) ^^ nat n) (rs self))\<rparr>)"
proof -
  obtain pt g1 where d1:
    "fill (legacy_exponential R (mean_process_time (params self))) (nat n) (rs self) = (pt, g1)"
    by (cases "fill (legacy_exponential R (mean_process_time (params self))) (nat n) (rs self)")
  obtain ad g2 where d2:
    "fill (legacy_random_binomial R 1 (p_admit (params self))) (nat n) g1 = (ad, g2)"
    by (cases "fill (legacy_random_binomial R 1 (p_admit (params self))) (nat n) g1")
  have g1: "g1 = (advance (legacy_standard_exponential R) ^^ nat n) (rs self)"
    using fill_state [OF d1] by (simp add: advance_legacy_exponential)
  have g2: "g2 = (advance (legacy_random_binomial R 1 (p_admit (params self))) ^^ nat n) g1"
    using fill_state [OF d2] .
  have 1: "simulate_ed_process_times R self n = (Inr pt, self\<lparr>rs := g1\<rparr>)"
    by (simp add: simulate_ed_process_times_def exponential_draw [OF assms(2) assms(1) d1])
  have 2: "simulate_admission R (self\<lparr>rs := g1\<rparr>) n = (Inr ad, self\<lparr>rs := g2\<rparr>)"
    using binomial_draw [OF assms(3) assms(4) _ assms(1) d2]
    by (simp add: simulate_admission_def)
  have 3: "simulate_dta_times R (self\<lparr>rs := g2\<rparr>) n = (Inl ValueError, self\<lparr>rs := g2\<rparr>)"
    using assms(5) by (simp add: simulate_dta_times_def RandomState_exponential_def)
  have "simulate R self n = (Inl ValueError, self\<lparr>rs := g2\<rparr>)"
    by (simp add: simulate_def 1 2 3)
  then show ?thesis
    by (simp add: g2 g1)
qed

lemma simulate_succeeds:
  assumes "0 \<le> n" "0 \<le> mean_process_time (params self)" "0 \<le> mean_dta (params self)"
    and "0 \<le> p_admit (params self)" "p_admit (params self) \<le> 1"
  shows "\<exists>ys. fst (simulate R self n) = Inr ys"
proof -
  obtain pt g1 where d1:
    "fill (legacy_exponential R (mean_process_time (params self))) (nat n) (rs self) = (pt, g1)"
    by (cases "fill (legacy_exponential R (mean_process_time (params self))) (nat n) (rs self)")
  obtain ad g2 where d2:
    "fill (legacy_random_binomial R 1 (p_admit (params self))) (nat n) g1 = (ad, g2)"
    by (cases "fill (legacy_random_binomial R 1 (p_admit (params self))) (nat n) g1")
  obtain dl g3 where d3:
    "fill (legacy_exponential R (mean_dta (params self))) (nat n) g2 = (dl, g3)"
    by (cases "fill (legacy_exponential R (mean_dta (params self))) (nat n) g2")
  have len: "length ad = length pt" "length dl = length pt"
    using fill_length [OF d1] fill_length [OF d2] fill_length [OF d3] by simp_all
  have "simulate R self n = (ed_times pt ad dl, self\<lparr>rs := g3\<rparr>)"
    using assms d1 d2 d3 by (intro simulate_valid(4)) simp_all
  then show ?thesis
    by (simp add: ed_times_valid [OF len])
qed

lemma three_draws:
  assumes n: "0 \<le> n"
    and c: "0 \<le> mean_process_time (params self)" "0 \<le> mean_dta (params self)"
      "0 \<le> p_admit (params self)" "p_admit (params self) \<le> 1"
  shows "\<exists>pt ad dl g1 g2 g3.
      simulate_ed_process_times R self n = (Inr pt, self\<lparr>rs := g1\<rparr>)
    \<and> simulate_admission R (self\<lparr>rs := g1\<rparr>) n = (Inr ad, self\<lparr>rs := g2\<rparr>)
    \<and> simulate_dta_times R (self\<lparr>rs := g2\<rparr>) n = (Inr dl, self\<lparr>rs := g3\<rparr>)
    \<and> simulate R self n = (ed_times pt ad dl, self\<lparr>rs := g3\<rparr>)
    \<and> length pt = nat n \<and> length ad = nat n \<and> length dl = nat n
    \<and> g1 = (advance (legacy_standard_exponential R) ^^ nat n) (rs self)
    \<and> g2 = (advance (legacy_random_binomial R 1 (p_admit (params self))) ^^ nat n) g1
    \<and> g3 = (advance (legacy_standard_exponential R) ^^ nat n) g2
    \<and> (binomial_in_range R \<longrightarrow> (\<forall>a\<in>set ad. a = 0 \<or> a = 1))"
proof -
  obtain pt g1 where d1:
    "fill (legacy_exponential R (mean_process_time (params self))) (nat n) (rs self) = (pt, g1)"
    by (cases "fill (legacy_exponential R (mean_process_time (params self))) (nat n) (rs self)")
  obtain ad g2 where d2:
    "fill (legacy_random_binomial R 1 (p_admit (params self))) (nat n) g1 = (ad, g2)"
    by (cases "fill (legacy_random_binomial R 1 (p_admit (params self))) (nat n) g1")
  obtain dl g3 where d3:
    "fill (legacy_exponential R (mean_dta (params self))) (nat n) g2 = (dl, g3)"
    by (cases "fill (legacy_exponential R (mean_dta (params self))) (nat n) g2")
  note v = simulate_valid [OF n c d1 d2 d3]
  have "length pt = nat n" "length ad = nat n" "length dl = nat n"
    using fill_length [OF d1] fill_length [OF d2] fill_length [OF d3] by simp_all
  moreover have "g1 = (advance (legacy_standard_exponential R) ^^ nat n) (rs self)"
    using fill_state [OF d1] by (simp add: advance_legacy_exponential)
  moreover have "g2 = (advance (legacy_random_binomial R 1 (p_admit (params self))) ^^ nat n) g1"
    using fill_state [OF d2] .
  moreover have "g3 = (advance (legacy_standard_exponential R) ^^ nat n) g2"
    using fill_state [OF d3] by (simp add: advance_legacy_exponential)
  moreover have "binomial_in_range R \<longrightarrow> (\<forall>a\<in>set ad. a = 0 \<or> a = 1)"
    using admissions_range [OF _ d2] by blast
  ultimately show ?thesis
    using v by blast
qed

lemma ed_times_ignores_unused_delays:
  assumes "length ad = length pt" "length dl = length pt" "length dl' = length pt"
    and "\<forall>i<length pt. ad ! i = 1 \<longrightarrow> dl' ! i = dl ! i"
  shows "ed_times pt ad dl' = ed_times pt ad dl"
proof -
  have "map (\<lambda>i. pt ! i + dl' ! i) (filter (\<lambda>i. ad ! i = 1) [0..<length pt])
      = map (\<lambda>i. pt ! i + dl ! i) (filter (\<lambda>i. ad ! i = 1) [0..<length pt])"
    using assms(4) by (intro map_cong) auto
  then show ?thesis
    by (simp add: ed_times_valid [OF assms(1) assms(2)] ed_times_valid [OF assms(1) assms(3)])
qed

lemma baseline_model_valid:
  "0 < mean_process_time (params baseline_model)" "0 < mean_dta (params baseline_model)"
  "0 \<le> p_admit (params baseline_model)" "p_admit (params baseline_model) \<le> 1"
  by (simp_all add: baseline_model_def baseline_def ScenarioParameters_init_def)

lemma admission_draw_is_fill:
  assumes "simulate_admission R self n = (Inr ad, s')"
  shows "fill (legacy_random_binomial R 1 (p_admit (params self))) (nat n) (rs self) = (ad, rs s')"
  using assms
  by (auto simp: simulate_admission_def RandomState_binomial_def split: if_splits prod.splits)

lemma masks_exclusive:
  assumes "\<forall>a\<in>set ad. a = 0 \<or> a = (1::int)" "i < length ad"
  shows "eq_scalar ad 1 ! i \<noteq> eq_scalar ad 0 ! i"
proof -
  from assms have "ad ! i = 0 \<or> ad ! i = 1" by simp
  then show ?thesis using assms(2) by (auto simp: eq_scalar_def)
qed

lemma ed_times_mset:
  assumes "length ad = length pt" "length dl = length pt" "\<forall>a\<in>set ad. a = 0 \<or> a = 1"
  shows "\<exists>ys. ed_times pt ad dl = Inr ys
     \<and> mset ys = mset (map (\<lambda>i. if ad ! i = 1 then pt ! i + dl ! i else pt ! i) [0..<length pt])"
proof -
  have "filter (\<lambda>i. ad ! i = 0) [0..<length pt] = filter (\<lambda>i. \<not> ad ! i = 1) [0..<length pt]"
    using assms(1,3) by (intro filter_cong) (auto simp: all_set_conv_all_nth)
  then have "mset (map (\<lambda>i. pt ! i + dl ! i) (filter (\<lambda>i. ad ! i = 1) [0..<length pt])
          @ map (\<lambda>i. pt ! i) (filter (\<lambda>i. ad ! i = 0) [0..<length pt]))
      = mset (map (\<lambda>i. if ad ! i = 1 then pt ! i + dl ! i else pt ! i) [0..<length pt])"
    using mset_partition_map [of "\<lambda>i. pt ! i + dl ! i" "\<lambda>i. ad ! i = 1" "[0..<length pt]" "\<lambda>i. pt ! i"]
    by simp
  then show ?thesis
    unfolding ed_times_valid [OF assms(1) assms(2)] by blast
qed

lemma fill_numeral:
  "fill f (numeral k) g =
     (case f g of (x, g') \<Rightarrow> (case fill f (pred_numeral k) g' of (xs, g'') \<Rightarrow> (x # xs, g'')))"
  by (simp add: numeral_eq_Suc)

lemma funpow_numeral_apply: "(f ^^ numeral k) x = f ((f ^^ pred_numeral k) x)"
  by (simp add: numeral_eq_Suc)

lemma lcg_simps:
  "init_seed lcg s = nat s mod 16"
  "legacy_standard_exponential lcg g = (real (g mod 4) / 2, lcg_next g)"
  "legacy_random_binomial lcg n p g = (if real (g mod 8) / 8 < p then n else 0, lcg_next g)"
  by (simp_all add: lcg_def)

section \<open>Effects of simulate\<close>

text \<open>
  C8. \<open>simulate\<close> has no effect other than advancing the simulator's own generator:
  after every call the parameters are the ones before the call, with all their fields,
  and the object differs from the one before at most in its generator state.
\<close>

theorem simulate_only_advances_generator:
  "params (snd (simulate R self n)) = params self
   \<and> snd (simulate R self n) = self\<lparr>rs := rs (snd (simulate R self n))\<rparr>"
proof -
  obtain g where "snd (simulate R self n) = self\<lparr>rs := g\<rparr>"
    using simulate_frame_aux [of R self n] by (elim exE)
  then show ?thesis by simp
qed

text \<open>
  C3. Determinism as an equality of two runs: two simulators constructed independently
  from the same configuration and the same integer seed, whatever the operating system's
  entropy is at each construction, give the same outcome when \<open>simulate n\<close> is called once
  on each.
\<close>

theorem seeded_runs_agree:
  "single_run R c (Some s) entropy1 n = single_run R c (Some s) entropy2 n"
  by (simp add: single_run_def SimpleMonteCarloED_init_def RandomState_def)

section \<open>The sequence returned\<close>

text \<open>
  C9. For every configuration (positive means, \<open>p_admit\<close> in \<open>[0, 1]\<close>), \<open>simulate 0\<close>
  raises nothing and returns the empty sequence; the generator is not advanced.
\<close>

theorem simulate_zero:
  assumes "0 < mean_process_time (params self)" "0 < mean_dta (params self)"
    and "0 \<le> p_admit (params self)" "p_admit (params self) \<le> 1"
  shows "simulate R self 0 = (Inr [], self)"
proof -
  have "simulate R self 0 = (ed_times [] [] [], self\<lparr>rs := rs self\<rparr>)"
    using assms by (intro simulate_valid(4)) simp_all
  then show ?thesis
    by (simp add: ed_times_def bool_index_def eq_scalar_def np_add_def np_append_def)
qed

theorem simulate_zero_witness:
  "0 < mean_process_time baseline \<and> 0 < mean_dta baseline
   \<and> 0 \<le> p_admit baseline \<and> p_admit baseline \<le> 1
   \<and> simulate lcg \<lparr>params = baseline, rs = 7\<rparr> 0 = (Inr [], \<lparr>params = baseline, rs = 7\<rparr>)"
  using simulate_zero [of "\<lparr>params = baseline, rs = 7\<rparr>" lcg]
  by (simp add: baseline_def ScenarioParameters_init_def)

text \<open>
  C2. For every \<open>n \<ge> 0\<close> and every configuration (positive means, \<open>p_admit\<close> in
  \<open>[0, 1]\<close>), \<open>simulate n\<close> returns a sequence of length exactly \<open>n\<close>. The binomial
  kernel is assumed to count between \<open>0\<close> and the number of trials.
\<close>

theorem simulate_length:
  assumes "binomial_in_range R" and "0 \<le> n"
    and "0 < mean_process_time (params self)" "0 < mean_dta (params self)"
    and "0 \<le> p_admit (params self)" "p_admit (params self) \<le> 1"
  shows "\<exists>ys. fst (simulate R self n) = Inr ys \<and> int (length ys) = n"
proof -
  obtain pt g1 where d1:
    "fill (legacy_exponential R (mean_process_time (params self))) (nat n) (rs self) = (pt, g1)"
    by (cases "fill (legacy_exponential R (mean_process_time (params self))) (nat n) (rs self)")
  obtain ad g2 where d2:
    "fill (legacy_random_binomial R 1 (p_admit (params self))) (nat n) g1 = (ad, g2)"
    by (cases "fill (legacy_random_binomial R 1 (p_admit (params self))) (nat n) g1")
  obtain dl g3 where d3:
    "fill (legacy_exponential R (mean_dta (params self))) (nat n) g2 = (dl, g3)"
    by (cases "fill (legacy_exponential R (mean_dta (params self))) (nat n) g2")
  have len: "length pt = nat n" "length ad = nat n" "length dl = nat n"
    using d1 d2 d3 by (auto dest: fill_length)
  have sim: "simulate R self n = (ed_times pt ad dl, self\<lparr>rs := g3\<rparr>)"
    using assms d1 d2 d3 by (intro simulate_valid(4)) simp_all
  have rng: "\<forall>a\<in>set ad. a = 0 \<or> a = 1"
    using admissions_range [OF assms(1) d2] .
  have "filter (\<lambda>i. ad ! i = 0) [0..<nat n] = filter (\<lambda>i. \<not> ad ! i = 1) [0..<nat n]"
    using rng len(2) by (intro filter_cong) (auto simp: all_set_conv_all_nth)
  then have "length (filter (\<lambda>i. ad ! i = 1) [0..<nat n])
      + length (filter (\<lambda>i. ad ! i = 0) [0..<nat n]) = nat n"
    using sum_length_filter_compl [of "\<lambda>i. ad ! i = 1" "[0..<nat n]"] by simp
  then show ?thesis
    using sim len assms(2) by (simp add: ed_times_valid)
qed

theorem simulate_length_witness:
  "binomial_in_range lcg \<and> (0::int) \<le> 5
   \<and> 0 < mean_process_time baseline \<and> 0 < mean_dta baseline
   \<and> 0 \<le> p_admit baseline \<and> p_admit baseline \<le> 1
   \<and> (\<exists>ys. fst (simulate lcg \<lparr>params = baseline, rs = 0\<rparr> 5) = Inr ys \<and> int (length ys) = 5)"
proof -
  have h: "binomial_in_range lcg"
    by (simp add: binomial_in_range_def lcg_def)
  have c: "0 < mean_process_time (params \<lparr>params = baseline, rs = 0::nat\<rparr>)"
    "0 < mean_dta (params \<lparr>params = baseline, rs = 0::nat\<rparr>)"
    "0 \<le> p_admit (params \<lparr>params = baseline, rs = 0::nat\<rparr>)"
    "p_admit (params \<lparr>params = baseline, rs = 0::nat\<rparr>) \<le> 1"
    by (simp_all add: baseline_def ScenarioParameters_init_def)
  have n: "(0::int) \<le> 5" by simp
  show ?thesis
    using h c simulate_length [OF h n c] by simp
qed

text \<open>
  C4. For every valid configuration (positive means, \<open>p_admit\<close> in \<open>[0, 1]\<close>) and every
  \<open>n\<close>, every value of the sequence that \<open>simulate n\<close> returns is at least \<open>0\<close>, and for
  \<open>n \<ge> 0\<close> a sequence is returned. Floats are modelled by the reals, and the standard
  exponential kernel is assumed to deliver no negative sample.
\<close>

theorem simulate_nonneg:
  assumes "exponential_nonneg R"
    and "0 < mean_process_time (params self)" "0 < mean_dta (params self)"
    and "0 \<le> p_admit (params self)" "p_admit (params self) \<le> 1"
  shows "(0 \<le> n \<longrightarrow> (\<exists>ys. fst (simulate R self n) = Inr ys))
       \<and> (\<forall>ys. fst (simulate R self n) = Inr ys \<longrightarrow> (\<forall>y\<in>set ys. 0 \<le> y))"
proof (cases "0 \<le> n")
  case False
  then have "simulate R self n = (Inl ValueError, self)"
    by (intro first_draw_raises) simp
  with False show ?thesis by simp
next
  case True
  obtain pt g1 where d1:
    "fill (legacy_exponential R (mean_process_time (params self))) (nat n) (rs self) = (pt, g1)"
    by (cases "fill (legacy_exponential R (mean_process_time (params self))) (nat n) (rs self)")
  obtain ad g2 where d2:
    "fill (legacy_random_binomial R 1 (p_admit (params self))) (nat n) g1 = (ad, g2)"
    by (cases "fill (legacy_random_binomial R 1 (p_admit (params self))) (nat n) g1")
  obtain dl g3 where d3:
    "fill (legacy_exponential R (mean_dta (params self))) (nat n) g2 = (dl, g3)"
    by (cases "fill (legacy_exponential R (mean_dta (params self))) (nat n) g2")
  have len: "length ad = length pt" "length dl = length pt"
    using fill_length [OF d1] fill_length [OF d2] fill_length [OF d3] by simp_all
  have pt: "\<forall>i<length pt. 0 \<le> pt ! i"
    using exponential_samples_nonneg [OF assms(1) _ d1] assms(2) by simp
  have dl: "\<forall>i<length pt. 0 \<le> dl ! i"
    using exponential_samples_nonneg [OF assms(1) _ d3] assms(3) len(2) by simp
  have "simulate R self n = (ed_times pt ad dl, self\<lparr>rs := g3\<rparr>)"
    using True assms d1 d2 d3 by (intro simulate_valid(4)) simp_all
  then have "fst (simulate R self n) =
     Inr (map (\<lambda>i. pt ! i + dl ! i) (filter (\<lambda>i. ad ! i = 1) [0..<length pt])
          @ map (\<lambda>i. pt ! i) (filter (\<lambda>i. ad ! i = 0) [0..<length pt]))"
    by (simp add: ed_times_valid [OF len])
  then show ?thesis
    using pt dl by auto
qed

theorem simulate_nonneg_witness:
  "exponential_nonneg lcg
   \<and> 0 < mean_process_time (params baseline_model) \<and> 0 < mean_dta (params baseline_model)
   \<and> 0 \<le> p_admit (params baseline_model) \<and> p_admit (params baseline_model) \<le> 1
   \<and> (0::int) \<le> 5
   \<and> (\<exists>ys. fst (simulate lcg baseline_model 5) = Inr ys \<and> (\<forall>y\<in>set ys. 0 \<le> y))"
proof -
  note c = baseline_model_valid
  from simulate_nonneg [OF lcg_nonneg c, of 5]
  have "\<exists>ys. fst (simulate lcg baseline_model 5) = Inr ys \<and> (\<forall>y\<in>set ys. 0 \<le> y)"
    by auto
  with lcg_nonneg c show ?thesis by simp
qed

section \<open>The draws and what is made of them\<close>

text \<open>
  C1. For every \<open>n \<ge> 1\<close> and every configuration (positive means, \<open>p_admit\<close> in
  \<open>[0, 1]\<close>), \<open>simulate n\<close> returns the total times of the admitted patients,
  \<open>process_times[i] + admit_delays[i]\<close> for each index \<open>i\<close> whose admission draw is 1, in
  index order, followed by the total times of the other patients, \<open>process_times[i]\<close>
  for each index \<open>i\<close> whose admission draw is 0, in index order. The delays drawn at the
  indices that are not admitted do not influence the result: any other delays that agree
  with the drawn ones at the admitted indices give the same sequence.
\<close>

theorem simulate_admitted_then_not_admitted:
  assumes "1 \<le> n"
    and "0 < mean_process_time (params self)" "0 < mean_dta (params self)"
    and "0 \<le> p_admit (params self)" "p_admit (params self) \<le> 1"
  shows "\<exists>process_times admissions admit_delays self1 self2 self3.
      simulate_ed_process_times R self n = (Inr process_times, self1)
    \<and> simulate_admission R self1 n = (Inr admissions, self2)
    \<and> simulate_dta_times R self2 n = (Inr admit_delays, self3)
    \<and> simulate R self n =
        (Inr (map (\<lambda>i. process_times ! i + admit_delays ! i)
                (filter (\<lambda>i. admissions ! i = 1) [0..<nat n])
              @ map (\<lambda>i. process_times ! i)
                (filter (\<lambda>i. admissions ! i = 0) [0..<nat n])), self3)
    \<and> (\<forall>other_delays. length other_delays = nat n
          \<and> (\<forall>i<nat n. admissions ! i = 1 \<longrightarrow> other_delays ! i = admit_delays ! i)
          \<longrightarrow> ed_times process_times admissions other_delays
              = ed_times process_times admissions admit_delays)"
proof -
  from assms obtain pt ad dl g1 g2 g3 where
    d: "simulate_ed_process_times R self n = (Inr pt, self\<lparr>rs := g1\<rparr>)"
       "simulate_admission R (self\<lparr>rs := g1\<rparr>) n = (Inr ad, self\<lparr>rs := g2\<rparr>)"
       "simulate_dta_times R (self\<lparr>rs := g2\<rparr>) n = (Inr dl, self\<lparr>rs := g3\<rparr>)"
    and s: "simulate R self n = (ed_times pt ad dl, self\<lparr>rs := g3\<rparr>)"
    and len: "length pt = nat n" "length ad = nat n" "length dl = nat n"
    using three_draws [of n self R] by auto
  have e: "ed_times pt ad dl =
     Inr (map (\<lambda>i. pt ! i + dl ! i) (filter (\<lambda>i. ad ! i = 1) [0..<nat n])
          @ map (\<lambda>i. pt ! i) (filter (\<lambda>i. ad ! i = 0) [0..<nat n]))"
    using ed_times_valid [of ad pt dl] len by simp
  have i: "\<forall>other_delays. length other_delays = nat n
          \<and> (\<forall>i<nat n. ad ! i = 1 \<longrightarrow> other_delays ! i = dl ! i)
          \<longrightarrow> ed_times pt ad other_delays = ed_times pt ad dl"
  proof (intro allI impI)
    fix other_delays :: "real list"
    assume a: "length other_delays = nat n
      \<and> (\<forall>i<nat n. ad ! i = 1 \<longrightarrow> other_delays ! i = dl ! i)"
    have 1: "length ad = length pt" "length dl = length pt" "length other_delays = length pt"
      using len a by simp_all
    have 2: "\<forall>i<length pt. ad ! i = 1 \<longrightarrow> other_delays ! i = dl ! i"
      using a len(1) by simp
    show "ed_times pt ad other_delays = ed_times pt ad dl"
      by (rule ed_times_ignores_unused_delays [OF 1 2])
  qed
  have r: "simulate R self n =
     (Inr (map (\<lambda>i. pt ! i + dl ! i) (filter (\<lambda>i. ad ! i = 1) [0..<nat n])
           @ map (\<lambda>i. pt ! i) (filter (\<lambda>i. ad ! i = 0) [0..<nat n])), self\<lparr>rs := g3\<rparr>)"
    using s e by simp
  from d r i show ?thesis by blast
qed

theorem simulate_admitted_then_not_admitted_witness:
  "(1::int) \<le> 5
   \<and> 0 < mean_process_time (params baseline_model) \<and> 0 < mean_dta (params baseline_model)
   \<and> 0 \<le> p_admit (params baseline_model) \<and> p_admit (params baseline_model) \<le> 1
   \<and> (\<exists>process_times admissions admit_delays self1 self2 self3.
      simulate_ed_process_times lcg baseline_model 5 = (Inr process_times, self1)
    \<and> simulate_admission lcg self1 5 = (Inr admissions, self2)
    \<and> simulate_dta_times lcg self2 5 = (Inr admit_delays, self3)
    \<and> simulate lcg baseline_model 5 =
        (Inr (map (\<lambda>i. process_times ! i + admit_delays ! i)
                (filter (\<lambda>i. admissions ! i = 1) [0..<nat 5])
              @ map (\<lambda>i. process_times ! i)
                (filter (\<lambda>i. admissions ! i = 0) [0..<nat 5])), self3)
    \<and> (\<forall>other_delays. length other_delays = nat 5
          \<and> (\<forall>i<nat 5. admissions ! i = 1 \<longrightarrow> other_delays ! i = admit_delays ! i)
          \<longrightarrow> ed_times process_times admissions other_delays
              = ed_times process_times admissions admit_delays))"
proof -
  have n: "(1::int) \<le> 5" by simp
  note c = baseline_model_valid
  from n c simulate_admitted_then_not_admitted [OF n c, of lcg]
  show ?thesis by (intro conjI)
qed

text \<open>
  C7. In every call \<open>simulate n\<close> (\<open>n \<ge> 0\<close>, positive means, \<open>p_admit\<close> in \<open>[0, 1]\<close>)
  the three draws are made in the order \<open>process_times\<close>, \<open>admissions\<close>,
  \<open>admit_delays\<close>, each from the generator state that the draw before it left. Each
  draw has \<open>n\<close> samples and moves the generator by exactly \<open>n\<close> calls of its kernel,
  whatever the admissions are. The draws are functions of the state at the call and of
  \<open>n\<close>, so the same seed and the same \<open>n\<close> give the same three sequences.
\<close>

theorem draws_in_order_n_samples_each:
  assumes "0 \<le> n"
    and "0 < mean_process_time (params self)" "0 < mean_dta (params self)"
    and "0 \<le> p_admit (params self)" "p_admit (params self) \<le> 1"
  shows "\<exists>process_times admissions admit_delays self1 self2 self3.
      simulate_ed_process_times R self n = (Inr process_times, self1)
    \<and> simulate_admission R self1 n = (Inr admissions, self2)
    \<and> simulate_dta_times R self2 n = (Inr admit_delays, self3)
    \<and> simulate R self n = (ed_times process_times admissions admit_delays, self3)
    \<and> length process_times = nat n \<and> length admissions = nat n
    \<and> length admit_delays = nat n
    \<and> rs self1 = (advance (legacy_standard_exponential R) ^^ nat n) (rs self)
    \<and> rs self2 = (advance (legacy_random_binomial R 1 (p_admit (params self))) ^^ nat n) (rs self1)
    \<and> rs self3 = (advance (legacy_standard_exponential R) ^^ nat n) (rs self2)"
proof -
  from assms obtain pt ad dl g1 g2 g3 where
    d: "simulate_ed_process_times R self n = (Inr pt, self\<lparr>rs := g1\<rparr>)"
       "simulate_admission R (self\<lparr>rs := g1\<rparr>) n = (Inr ad, self\<lparr>rs := g2\<rparr>)"
       "simulate_dta_times R (self\<lparr>rs := g2\<rparr>) n = (Inr dl, self\<lparr>rs := g3\<rparr>)"
    and s: "simulate R self n = (ed_times pt ad dl, self\<lparr>rs := g3\<rparr>)"
    and len: "length pt = nat n" "length ad = nat n" "length dl = nat n"
    and g: "g1 = (advance (legacy_standard_exponential R) ^^ nat n) (rs self)"
       "g2 = (advance (legacy_random_binomial R 1 (p_admit (params self))) ^^ nat n) g1"
       "g3 = (advance (legacy_standard_exponential R) ^^ nat n) g2"
    using three_draws [of n self R] by auto
  have "rs (self\<lparr>rs := g1\<rparr>) = (advance (legacy_standard_exponential R) ^^ nat n) (rs self)"
    "rs (self\<lparr>rs := g2\<rparr>) = (advance (legacy_random_binomial R 1 (p_admit (params self))) ^^ nat n)
       (rs (self\<lparr>rs := g1\<rparr>))"
    "rs (self\<lparr>rs := g3\<rparr>) = (advance (legacy_standard_exponential R) ^^ nat n)
       (rs (self\<lparr>rs := g2\<rparr>))"
    using g by simp_all
  with d s len show ?thesis by blast
qed

theorem draws_in_order_n_samples_each_witness:
  "(0::int) \<le> 5
   \<and> 0 < mean_process_time (params baseline_model) \<and> 0 < mean_dta (params baseline_model)
   \<and> 0 \<le> p_admit (params baseline_model) \<and> p_admit (params baseline_model) \<le> 1
   \<and> (\<exists>process_times admissions admit_delays self1 self2 self3.
      simulate_ed_process_times lcg baseline_model 5 = (Inr process_times, self1)
    \<and> simulate_admission lcg self1 5 = (Inr admissions, self2)
    \<and> simulate_dta_times lcg self2 5 = (Inr admit_delays, self3)
    \<and> simulate lcg baseline_model 5 = (ed_times process_times admissions admit_delays, self3)
    \<and> length process_times = nat 5 \<and> length admissions = nat 5
    \<and> length admit_delays = nat 5
    \<and> rs self1 = (advance (legacy_standard_exponential lcg) ^^ nat 5) (rs baseline_model)
    \<and> rs self2 = (advance (legacy_random_binomial lcg 1 (p_admit (params baseline_model))) ^^ nat 5) (rs self1)
    \<and> rs self3 = (advance (legacy_standard_exponential lcg) ^^ nat 5) (rs self2))"
proof -
  have n: "(0::int) \<le> 5" by simp
  note c = baseline_model_valid
  from n c draws_in_order_n_samples_each [OF n c, of lcg]
  show ?thesis by (intro conjI)
qed

text \<open>
  C10. For every \<open>n\<close> and every \<open>p_admit\<close> in \<open>[0, 1]\<close>, each value that the admissions
  draw returns is 0 or 1, so at every index exactly one of the two masks
  \<open>admissions == 1\<close> and \<open>admissions == 0\<close> is true. In \<open>simulate n\<close> (\<open>n \<ge> 0\<close>, positive
  means) each patient therefore contributes exactly one entry: the sequence returned
  holds, as a multiset, one total time for each index. The binomial kernel is assumed to
  count between \<open>0\<close> and the number of trials.
\<close>

theorem admissions_partition_patients:
  assumes "binomial_in_range R"
    and "0 \<le> p_admit (params self)" "p_admit (params self) \<le> 1"
  shows "(\<forall>ad s'. simulate_admission R self n = (Inr ad, s') \<longrightarrow>
            (\<forall>a\<in>set ad. a = 0 \<or> a = 1)
          \<and> (\<forall>i<length ad. eq_scalar ad 1 ! i \<noteq> eq_scalar ad 0 ! i))
       \<and> (0 \<le> n \<and> 0 < mean_process_time (params self) \<and> 0 < mean_dta (params self) \<longrightarrow>
           (\<exists>process_times admissions admit_delays self1 self2 self3 ys.
              simulate_ed_process_times R self n = (Inr process_times, self1)
            \<and> simulate_admission R self1 n = (Inr admissions, self2)
            \<and> simulate_dta_times R self2 n = (Inr admit_delays, self3)
            \<and> length admissions = nat n
            \<and> (\<forall>a\<in>set admissions. a = 0 \<or> a = 1)
            \<and> (\<forall>i<nat n. eq_scalar admissions 1 ! i \<noteq> eq_scalar admissions 0 ! i)
            \<and> fst (simulate R self n) = Inr ys
            \<and> mset ys = mset (map (\<lambda>i. if admissions ! i = 1
                                then process_times ! i + admit_delays ! i
                                else process_times ! i) [0..<nat n])))"
proof (intro conjI allI impI)
  fix ad s'
  assume a: "simulate_admission R self n = (Inr ad, s')"
  show "\<forall>a\<in>set ad. a = 0 \<or> a = 1"
    using admissions_range [OF assms(1) admission_draw_is_fill [OF a]] .
  then show "\<And>i. i < length ad \<Longrightarrow> eq_scalar ad 1 ! i \<noteq> eq_scalar ad 0 ! i"
    by (rule masks_exclusive)
next
  assume v: "0 \<le> n \<and> 0 < mean_process_time (params self) \<and> 0 < mean_dta (params self)"
  with assms obtain pt ad dl g1 g2 g3 where
    d: "simulate_ed_process_times R self n = (Inr pt, self\<lparr>rs := g1\<rparr>)"
       "simulate_admission R (self\<lparr>rs := g1\<rparr>) n = (Inr ad, self\<lparr>rs := g2\<rparr>)"
       "simulate_dta_times R (self\<lparr>rs := g2\<rparr>) n = (Inr dl, self\<lparr>rs := g3\<rparr>)"
    and s: "simulate R self n = (ed_times pt ad dl, self\<lparr>rs := g3\<rparr>)"
    and len: "length pt = nat n" "length ad = nat n" "length dl = nat n"
    and rng: "\<forall>a\<in>set ad. a = 0 \<or> a = 1"
    using three_draws [of n self R] by auto
  have l: "length ad = length pt" "length dl = length pt"
    using len by simp_all
  obtain ys where ys: "ed_times pt ad dl = Inr ys"
    "mset ys = mset (map (\<lambda>i. if ad ! i = 1 then pt ! i + dl ! i else pt ! i) [0..<length pt])"
    using ed_times_mset [OF l rng] by (elim exE conjE)
  have m: "\<forall>i<nat n. eq_scalar ad 1 ! i \<noteq> eq_scalar ad 0 ! i"
    using masks_exclusive [OF rng] len(2) by simp
  have f: "fst (simulate R self n) = Inr ys"
    using s ys(1) by simp
  have y: "mset ys = mset (map (\<lambda>i. if ad ! i = 1 then pt ! i + dl ! i else pt ! i) [0..<nat n])"
    using ys(2) len(1) by simp
  from d len(2) rng m f y
  show "\<exists>process_times admissions admit_delays self1 self2 self3 ys.
              simulate_ed_process_times R self n = (Inr process_times, self1)
            \<and> simulate_admission R self1 n = (Inr admissions, self2)
            \<and> simulate_dta_times R self2 n = (Inr admit_delays, self3)
            \<and> length admissions = nat n
            \<and> (\<forall>a\<in>set admissions. a = 0 \<or> a = 1)
            \<and> (\<forall>i<nat n. eq_scalar admissions 1 ! i \<noteq> eq_scalar admissions 0 ! i)
            \<and> fst (simulate R self n) = Inr ys
            \<and> mset ys = mset (map (\<lambda>i. if admissions ! i = 1
                                then process_times ! i + admit_delays ! i
                                else process_times ! i) [0..<nat n])"
    by blast
qed

theorem admissions_partition_patients_witness:
  "binomial_in_range lcg
   \<and> 0 \<le> p_admit (params baseline_model) \<and> p_admit (params baseline_model) \<le> 1
   \<and> (\<exists>ad s'. simulate_admission lcg baseline_model 5 = (Inr ad, s')
        \<and> (\<forall>a\<in>set ad. a = 0 \<or> a = 1)
        \<and> (\<forall>i<length ad. eq_scalar ad 1 ! i \<noteq> eq_scalar ad 0 ! i))
   \<and> (0::int) \<le> 5
   \<and> 0 < mean_process_time (params baseline_model) \<and> 0 < mean_dta (params baseline_model)
   \<and> (\<exists>process_times admissions admit_delays self1 self2 self3 ys.
              simulate_ed_process_times lcg baseline_model 5 = (Inr process_times, self1)
            \<and> simulate_admission lcg self1 5 = (Inr admissions, self2)
            \<and> simulate_dta_times lcg self2 5 = (Inr admit_delays, self3)
            \<and> length admissions = nat 5
            \<and> (\<forall>a\<in>set admissions. a = 0 \<or> a = 1)
            \<and> (\<forall>i<nat 5. eq_scalar admissions 1 ! i \<noteq> eq_scalar admissions 0 ! i)
            \<and> fst (simulate lcg baseline_model 5) = Inr ys
            \<and> mset ys = mset (map (\<lambda>i. if admissions ! i = 1
                                then process_times ! i + admit_delays ! i
                                else process_times ! i) [0..<nat 5]))"
proof -
  have d: "simulate_admission lcg baseline_model 5 = (Inr [0, 0, 0, 0, 1], baseline_model\<lparr>rs := 8\<rparr>)"
    by (simp add: simulate_admission_def RandomState_binomial_def baseline_model_def
        baseline_def ScenarioParameters_init_def lcg_simps lcg_next_def fill_numeral)
  note t = admissions_partition_patients [OF lcg_in_range baseline_model_valid(3,4), of 5]
  from t d have 1: "\<exists>ad s'. simulate_admission lcg baseline_model 5 = (Inr ad, s')
        \<and> (\<forall>a\<in>set ad. a = 0 \<or> a = 1)
        \<and> (\<forall>i<length ad. eq_scalar ad 1 ! i \<noteq> eq_scalar ad 0 ! i)"
    by blast
  have n: "(0::int) \<le> 5" by simp
  from t n baseline_model_valid(1,2) have 2:
    "\<exists>process_times admissions admit_delays self1 self2 self3 ys.
              simulate_ed_process_times lcg baseline_model 5 = (Inr process_times, self1)
            \<and> simulate_admission lcg self1 5 = (Inr admissions, self2)
            \<and> simulate_dta_times lcg self2 5 = (Inr admit_delays, self3)
            \<and> length admissions = nat 5
            \<and> (\<forall>a\<in>set admissions. a = 0 \<or> a = 1)
            \<and> (\<forall>i<nat 5. eq_scalar admissions 1 ! i \<noteq> eq_scalar admissions 0 ! i)
            \<and> fst (simulate lcg baseline_model 5) = Inr ys
            \<and> mset ys = mset (map (\<lambda>i. if admissions ! i = 1
                                then process_times ! i + admit_delays ! i
                                else process_times ! i) [0..<nat 5])"
    by (elim conjE impE) (intro conjI, assumption+)
  from lcg_in_range baseline_model_valid 1 n 2 show ?thesis
    by (intro conjI)
qed

section \<open>Invalid arguments\<close>

lemma simulate_returns_n:
  assumes "0 \<le> n" "0 \<le> mean_process_time (params self)" "0 \<le> mean_dta (params self)"
    and "0 \<le> p_admit (params self)" "p_admit (params self) \<le> 1"
  shows "\<exists>ys. fst (simulate R self n) = Inr ys \<and> (binomial_in_range R \<longrightarrow> int (length ys) = n)"
proof (cases "binomial_in_range R")
  case False
  with simulate_succeeds [OF assms] show ?thesis by simp
next
  case True
  from assms obtain pt ad dl g3 where
    s: "simulate R self n = (ed_times pt ad dl, self\<lparr>rs := g3\<rparr>)"
    and len: "length pt = nat n" "length ad = nat n" "length dl = nat n"
    and rng: "binomial_in_range R \<longrightarrow> (\<forall>a\<in>set ad. a = 0 \<or> a = 1)"
    using three_draws [of n self R] by auto
  have l: "length ad = length pt" "length dl = length pt"
    using len by simp_all
  from rng True have r: "\<forall>a\<in>set ad. a = 0 \<or> a = 1" by simp
  obtain ys where ys: "ed_times pt ad dl = Inr ys"
    "mset ys = mset (map (\<lambda>i. if ad ! i = 1 then pt ! i + dl ! i else pt ! i) [0..<length pt])"
    using ed_times_mset [OF l r] by (elim exE conjE)
  have "size (mset ys) = length pt"
    unfolding ys(2) by simp
  then have "int (length ys) = n"
    using len(1) assms(1) by simp
  with s ys(1) show ?thesis by simp
qed

text \<open>
  C6, as the code has it. \<open>simulate\<close> checks nothing itself; an invalid argument is
  rejected by the numpy draw that receives it, in the order of the draws, and a mean of
  exactly zero is accepted by numpy. The four cases cover every call.
  \<^item> A negative \<open>n_patients\<close> or a negative \<open>mean_process_time\<close> makes the first draw
    raise \<open>ValueError\<close>; the generator is as before.
  \<^item> Otherwise, \<open>p_admit\<close> outside \<open>[0, 1]\<close> makes the second draw raise \<open>ValueError\<close>,
    after the first draw has moved the generator by \<open>n\<close> samples.
  \<^item> Otherwise, a negative \<open>mean_dta\<close> makes the third draw raise \<open>ValueError\<close>, after
    the two draws before it have moved the generator by \<open>n\<close> samples each.
  \<^item> Otherwise \<open>simulate\<close> succeeds and returns a sequence, with all \<open>n\<close> outcomes when
    the binomial kernel counts between \<open>0\<close> and the number of trials.
  In each failing case no sequence is returned.
\<close>

theorem simulate_raises_where_numpy_checks:
  "(n < 0 \<or> mean_process_time (params self) < 0 \<longrightarrow>
      simulate R self n = (Inl ValueError, self))
   \<and> (0 \<le> n \<and> 0 \<le> mean_process_time (params self)
       \<and> (p_admit (params self) < 0 \<or> 1 < p_admit (params self)) \<longrightarrow>
      simulate R self n =
        (Inl ValueError,
         self\<lparr>rs := (advance (legacy_standard_exponential R) ^^ nat n) (rs self)\<rparr>))
   \<and> (0 \<le> n \<and> 0 \<le> mean_process_time (params self)
       \<and> 0 \<le> p_admit (params self) \<and> p_admit (params self) \<le> 1
       \<and> mean_dta (params self) < 0 \<longrightarrow>
      simulate R self n =
        (Inl ValueError,
         self\<lparr>rs := (advance (legacy_random_binomial R 1 (p_admit (params self))) ^^ nat n)
                     ((advance (legacy_standard_exponential R) ^^ nat n) (rs self))\<rparr>))
   \<and> (0 \<le> n \<and> 0 \<le> mean_process_time (params self) \<and> 0 \<le> mean_dta (params self)
       \<and> 0 \<le> p_admit (params self) \<and> p_admit (params self) \<le> 1 \<longrightarrow>
      (\<exists>ys. fst (simulate R self n) = Inr ys
         \<and> (binomial_in_range R \<longrightarrow> int (length ys) = n)))"
proof (intro conjI impI)
  assume "n < 0 \<or> mean_process_time (params self) < 0"
  then show "simulate R self n = (Inl ValueError, self)"
    by (rule first_draw_raises)
next
  assume "0 \<le> n \<and> 0 \<le> mean_process_time (params self)
       \<and> (p_admit (params self) < 0 \<or> 1 < p_admit (params self))"
  then show "simulate R self n =
        (Inl ValueError,
         self\<lparr>rs := (advance (legacy_standard_exponential R) ^^ nat n) (rs self)\<rparr>)"
    by (intro second_draw_raises) simp_all
next
  assume "0 \<le> n \<and> 0 \<le> mean_process_time (params self)
       \<and> 0 \<le> p_admit (params self) \<and> p_admit (params self) \<le> 1
       \<and> mean_dta (params self) < 0"
  then show "simulate R self n =
        (Inl ValueError,
         self\<lparr>rs := (advance (legacy_random_binomial R 1 (p_admit (params self))) ^^ nat n)
                     ((advance (legacy_standard_exponential R) ^^ nat n) (rs self))\<rparr>)"
    by (intro third_draw_raises) simp_all
next
  assume "0 \<le> n \<and> 0 \<le> mean_process_time (params self) \<and> 0 \<le> mean_dta (params self)
       \<and> 0 \<le> p_admit (params self) \<and> p_admit (params self) \<le> 1"
  then show "\<exists>ys. fst (simulate R self n) = Inr ys
         \<and> (binomial_in_range R \<longrightarrow> int (length ys) = n)"
    by (intro simulate_returns_n) simp_all
qed

theorem simulate_raises_where_numpy_checks_witness:
  "simulate lcg \<lparr>params = baseline, rs = 0\<rparr> (- 1)
       = (Inl ValueError, \<lparr>params = baseline, rs = 0\<rparr>)
   \<and> simulate lcg \<lparr>params = baseline\<lparr>mean_process_time := 0, p_admit := - 1\<rparr>, rs = 0\<rparr> 2
       = (Inl ValueError,
          \<lparr>params = baseline\<lparr>mean_process_time := 0, p_admit := - 1\<rparr>, rs = 2\<rparr>)
   \<and> simulate lcg \<lparr>params = baseline\<lparr>mean_dta := - 1\<rparr>, rs = 0\<rparr> 1
       = (Inl ValueError, \<lparr>params = baseline\<lparr>mean_dta := - 1\<rparr>, rs = 2\<rparr>)
   \<and> binomial_in_range lcg
   \<and> (\<exists>ys. fst (simulate lcg \<lparr>params = baseline, rs = 0\<rparr> 2) = Inr ys
         \<and> int (length ys) = 2)
   \<and> (\<exists>ys. fst (simulate lcg \<lparr>params = baseline\<lparr>mean_process_time := 0\<rparr>, rs = 0\<rparr> 2) = Inr ys
         \<and> int (length ys) = 2)"
  using simulate_raises_where_numpy_checks [of "- 1" "\<lparr>params = baseline, rs = 0\<rparr>" lcg]
    simulate_raises_where_numpy_checks
      [of 2 "\<lparr>params = baseline\<lparr>mean_process_time := 0, p_admit := - 1\<rparr>, rs = 0\<rparr>" lcg]
    simulate_raises_where_numpy_checks [of 1 "\<lparr>params = baseline\<lparr>mean_dta := - 1\<rparr>, rs = 0\<rparr>" lcg]
    simulate_raises_where_numpy_checks [of 2 "\<lparr>params = baseline, rs = 0\<rparr>" lcg]
    simulate_raises_where_numpy_checks
      [of 2 "\<lparr>params = baseline\<lparr>mean_process_time := 0\<rparr>, rs = 0\<rparr>" lcg]
    lcg_in_range
  by (simp add: baseline_def ScenarioParameters_init_def lcg_simps lcg_next_def advance_def
      funpow_numeral_apply)

text \<open>
  C6 as stated fails twice. With \<open>p_admit = 2\<close> and one patient, \<open>simulate\<close> raises
  only in the second draw, and the generator has moved from state 0 to state 3 by then,
  so the failure is neither at the boundary nor without effect. With a mean of exactly
  zero, which is not positive, nothing is raised: the call returns its one outcome.
\<close>

theorem simulate_raises_after_first_draw_counterexample:
  "1 < p_admit (baseline\<lparr>p_admit := 2\<rparr>)
   \<and> simulate lcg \<lparr>params = baseline\<lparr>p_admit := 2\<rparr>, rs = 0\<rparr> 1
       = (Inl ValueError, \<lparr>params = baseline\<lparr>p_admit := 2\<rparr>, rs = 3\<rparr>)
   \<and> \<lparr>params = baseline\<lparr>p_admit := 2\<rparr>, rs = 3::nat\<rparr>
       \<noteq> \<lparr>params = baseline\<lparr>p_admit := 2\<rparr>, rs = 0\<rparr>
   \<and> mean_process_time (baseline\<lparr>mean_process_time := 0\<rparr>) \<le> 0
   \<and> simulate lcg \<lparr>params = baseline\<lparr>mean_process_time := 0\<rparr>, rs = 0\<rparr> 1
       = (Inr [120], \<lparr>params = baseline\<lparr>mean_process_time := 0\<rparr>, rs = 13\<rparr>)"
  by (simp add: simulate_def simulate_ed_process_times_def simulate_admission_def
      simulate_dta_times_def RandomState_exponential_def RandomState_binomial_def
      legacy_exponential_def ed_times_def bool_index_def eq_scalar_def np_add_def
      np_append_def baseline_def ScenarioParameters_init_def lcg_simps lcg_next_def)

end
